theory Spec2Isabelle
  imports Complex_Main "HOL-Library.Word" "HOL-Library.Sublist"
begin

chapter \<open>The model\<close>

section \<open>Solidity basics shared by both contracts\<close>

text \<open>
  An \<open>address\<close> is a 160-bit word; \<open>address(0)\<close> is the word \<open>0\<close>.  A \<open>uint256\<close> is a
  natural number below \<open>2 ^ 256\<close>; the contracts are compiled with Solidity 0.8, whose
  arithmetic is checked, so every addition that could leave the range is written out as a
  branch ending in \<open>Panic\<close>.  A reverted call is the left injection of a sum: it carries the
  reason and no state, the caller keeps the state it had (the EVM rolls the frame back).
  Events are not part of the state and are left out.
\<close>

type_synonym address = "160 word"

type_synonym uint256 = nat

definition MAX_UINT256 :: nat where
  "MAX_UINT256 = 2 ^ 256 - 1"

datatype revert =
    Revert string
  | Panic
  | CallFailed nat
  | ReentrantCall
  | TokenTransferFailed

section \<open>SmartAccount: guardians and social recovery\<close>

record Recovery =
  newOwner :: address
  confirmations :: uint256
  confirmed :: "address \<Rightarrow> bool"
  timestamp :: uint256
  executed :: bool

record SmartAccount =
  owner :: address
  guardians :: "address \<Rightarrow> bool"
  guardianList :: "address list"
  guardianCount :: uint256
  requiredGuardians :: uint256
  entryPoint :: address
  recoveries :: "uint256 \<Rightarrow> Recovery"
  recoveryCounter :: uint256
  entered :: bool

definition RECOVERY_PERIOD :: uint256 where
  "RECOVERY_PERIOD = 2 * 24 * 60 * 60"

definition emptyRecovery :: Recovery where
  "emptyRecovery = \<lparr>newOwner = 0, confirmations = 0, confirmed = (\<lambda>_. False),
     timestamp = 0, executed = False\<rparr>"

definition freshAccount :: SmartAccount where
  "freshAccount = \<lparr>owner = 0, guardians = (\<lambda>_. False), guardianList = [],
     guardianCount = 0, requiredGuardians = 0, entryPoint = 0,
     recoveries = (\<lambda>_. emptyRecovery), recoveryCounter = 0, entered = False\<rparr>"

text \<open>The constructor's loop over \<open>_guardians\<close>.\<close>

fun pushGuardians :: "address list \<Rightarrow> SmartAccount \<Rightarrow> revert + SmartAccount" where
  "pushGuardians [] s = Inr s"
| "pushGuardians (g # gs) s =
     (if g = 0 then Inl (Revert ''SmartAccount: guardian cannot be zero address'')
      else if guardians s g then Inl (Revert ''SmartAccount: duplicate guardian'')
      else pushGuardians gs
             (s\<lparr>guardians := (guardians s)(g := True), guardianList := guardianList s @ [g]\<rparr>))"

definition constructor ::
  "address \<Rightarrow> address list \<Rightarrow> uint256 \<Rightarrow> address \<Rightarrow> revert + SmartAccount" where
  "constructor ownerArg guardiansArg requiredArg entryPointArg =
     (if ownerArg = 0 then Inl (Revert ''SmartAccount: owner cannot be zero address'')
      else if entryPointArg = 0
        then Inl (Revert ''SmartAccount: entryPoint cannot be zero address'')
      else if \<not> (requiredArg > 0 \<and> requiredArg \<le> length guardiansArg)
        then Inl (Revert ''SmartAccount: invalid required guardians count'')
      else
        (case pushGuardians guardiansArg
                (freshAccount\<lparr>owner := ownerArg, requiredGuardians := requiredArg,
                   entryPoint := entryPointArg\<rparr>) of
           Inl e \<Rightarrow> Inl e
         | Inr s \<Rightarrow> Inr (s\<lparr>guardianCount := length guardiansArg\<rparr>)))"

definition addGuardian :: "address \<Rightarrow> address \<Rightarrow> SmartAccount \<Rightarrow> revert + SmartAccount" where
  "addGuardian sender guardian s =
     (if sender \<noteq> owner s then Inl (Revert ''SmartAccount: caller is not the owner'')
      else if guardian = 0 then Inl (Revert ''SmartAccount: guardian cannot be zero address'')
      else if guardians s guardian then Inl (Revert ''SmartAccount: guardian already exists'')
      else if guardian = owner s then Inl (Revert ''SmartAccount: owner cannot be guardian'')
      else if guardianCount s = MAX_UINT256 then Inl Panic
      else Inr (s\<lparr>guardians := (guardians s)(guardian := True),
                  guardianList := guardianList s @ [guardian],
                  guardianCount := guardianCount s + 1\<rparr>))"

text \<open>
  The removal loop: the first index holding \<open>guardian\<close> receives the last element, then the
  array is popped; when no index holds it the array is left as it is.
\<close>

definition swapPop :: "address \<Rightarrow> address list \<Rightarrow> address list" where
  "swapPop guardian xs =
     (let i = length (takeWhile (\<lambda>x. x \<noteq> guardian) xs)
      in if i < length xs then butlast (xs[i := last xs]) else xs)"

definition removeGuardian :: "address \<Rightarrow> address \<Rightarrow> SmartAccount \<Rightarrow> revert + SmartAccount" where
  "removeGuardian sender guardian s =
     (if sender \<noteq> owner s then Inl (Revert ''SmartAccount: caller is not the owner'')
      else if \<not> guardians s guardian
        then Inl (Revert ''SmartAccount: guardian does not exist'')
      else if \<not> (guardianCount s > requiredGuardians s)
        then Inl (Revert
          ''SmartAccount: cannot remove guardian, would fall below required count'')
      else Inr (s\<lparr>guardians := (guardians s)(guardian := False),
                  guardianList := swapPop guardian (guardianList s),
                  guardianCount := guardianCount s - 1\<rparr>))"

definition initiateRecovery ::
  "address \<Rightarrow> uint256 \<Rightarrow> address \<Rightarrow> SmartAccount \<Rightarrow> revert + SmartAccount" where
  "initiateRecovery sender blockTimestamp newOwnerArg s =
     (if \<not> guardians s sender then Inl (Revert ''SmartAccount: caller is not a guardian'')
      else if newOwnerArg = 0
        then Inl (Revert ''SmartAccount: new owner cannot be zero address'')
      else if newOwnerArg = owner s
        then Inl (Revert ''SmartAccount: new owner is current owner'')
      else if recoveryCounter s = MAX_UINT256 then Inl Panic
      else
        (let recoveryId = recoveryCounter s;
             recovery = recoveries s recoveryId
         in Inr (s\<lparr>recoveryCounter := recoveryCounter s + 1,
                    recoveries := (recoveries s)(recoveryId :=
                      recovery\<lparr>newOwner := newOwnerArg, timestamp := blockTimestamp,
                        confirmed := (confirmed recovery)(sender := True),
                        confirmations := 1\<rparr>)\<rparr>)))"

text \<open>The internal \<open>_executeRecovery\<close>: the owner swap and the executed flag, in one step.\<close>

definition internalExecuteRecovery :: "uint256 \<Rightarrow> SmartAccount \<Rightarrow> SmartAccount" where
  "internalExecuteRecovery recoveryId s =
     (let recovery = recoveries s recoveryId
      in s\<lparr>owner := newOwner recovery,
           recoveries := (recoveries s)(recoveryId := recovery\<lparr>executed := True\<rparr>)\<rparr>)"

definition confirmRecovery ::
  "address \<Rightarrow> uint256 \<Rightarrow> uint256 \<Rightarrow> SmartAccount \<Rightarrow> revert + SmartAccount" where
  "confirmRecovery sender blockTimestamp recoveryId s =
     (let recovery = recoveries s recoveryId in
      if \<not> guardians s sender then Inl (Revert ''SmartAccount: caller is not a guardian'')
      else if newOwner recovery = 0
        then Inl (Revert ''SmartAccount: recovery does not exist'')
      else if executed recovery
        then Inl (Revert ''SmartAccount: recovery already executed'')
      else if confirmed recovery sender
        then Inl (Revert ''SmartAccount: already confirmed'')
      else if confirmations recovery = MAX_UINT256 then Inl Panic
      else
        (let s1 = s\<lparr>recoveries := (recoveries s)(recoveryId :=
                     recovery\<lparr>confirmed := (confirmed recovery)(sender := True),
                       confirmations := confirmations recovery + 1\<rparr>)\<rparr>
         in if confirmations recovery + 1 \<ge> requiredGuardians s
            then (if timestamp recovery + RECOVERY_PERIOD > MAX_UINT256 then Inl Panic
                  else if blockTimestamp \<ge> timestamp recovery + RECOVERY_PERIOD
                    then Inr (internalExecuteRecovery recoveryId s1)
                  else Inr s1)
            else Inr s1))"

definition executeRecovery :: "uint256 \<Rightarrow> uint256 \<Rightarrow> SmartAccount \<Rightarrow> revert + SmartAccount" where
  "executeRecovery blockTimestamp recoveryId s =
     (let recovery = recoveries s recoveryId in
      if \<not> (confirmations recovery \<ge> requiredGuardians s)
        then Inl (Revert ''SmartAccount: insufficient confirmations'')
      else if timestamp recovery + RECOVERY_PERIOD > MAX_UINT256 then Inl Panic
      else if \<not> (blockTimestamp \<ge> timestamp recovery + RECOVERY_PERIOD)
        then Inl (Revert ''SmartAccount: recovery period not passed'')
      else if executed recovery
        then Inl (Revert ''SmartAccount: recovery already executed'')
      else Inr (internalExecuteRecovery recoveryId s))"

text \<open>
  The scenario of the test suite: owner \<open>1\<close>, guardians \<open>2\<close>, \<open>3\<close> and \<open>4\<close>, two of them
  required; guardian \<open>2\<close> initiated a recovery towards \<open>9\<close> at time \<open>1000\<close> and guardian
  \<open>3\<close> confirmed it.
\<close>

definition pendingRecovery :: Recovery where
  "pendingRecovery = \<lparr>newOwner = 9, confirmations = 2,
     confirmed = (\<lambda>a. a = 2 \<or> a = 3), timestamp = 1000, executed = False\<rparr>"

definition testAccount :: SmartAccount where
  "testAccount = \<lparr>owner = 1, guardians = (\<lambda>a. a = 2 \<or> a = 3 \<or> a = 4),
     guardianList = [2, 3, 4], guardianCount = 3, requiredGuardians = 2, entryPoint = 7,
     recoveries = (\<lambda>i. if i = 0 then pendingRecovery else emptyRecovery),
     recoveryCounter = 1, entered = False\<rparr>"

section \<open>SmartAccount: batched execution\<close>

text \<open>
  A \<open>Call\<close> is the struct \<open>{to, value, data}\<close>.  What the callee does is not code of the
  account, so the low-level call \<open>call.to.call{value: call.value}(call.data)\<close> is a parameter
  \<open>ext\<close>: on a state it answers \<open>None\<close> when the call fails (the callee's frame is rolled
  back, the state is as before the call) and \<open>Some\<close> of the state left by a call that
  succeeds.  The state is the account together with the rest of the chain \<open>'w\<close>, since a
  callee may touch both.  \<open>entered\<close> is the flag of the reentrancy guard.
\<close>

record Call =
  callTo :: address
  callValue :: uint256
  callData :: "8 word list"

text \<open>The loop of \<open>batchExecute\<close>, with the index \<open>i\<close> of the call that is next.\<close>

fun executeCalls ::
  "(Call \<Rightarrow> 'st \<Rightarrow> 'st option) \<Rightarrow> nat \<Rightarrow> Call list \<Rightarrow> 'st \<Rightarrow> revert + 'st" where
  "executeCalls ext i [] st = Inr st"
| "executeCalls ext i (c # cs) st =
     (case ext c st of
        None \<Rightarrow> Inl (CallFailed i)
      | Some st' \<Rightarrow> executeCalls ext (Suc i) cs st')"

definition setEntered :: "bool \<Rightarrow> SmartAccount \<times> 'w \<Rightarrow> SmartAccount \<times> 'w" where
  "setEntered b st = (fst st\<lparr>entered := b\<rparr>, snd st)"

definition batchExecute ::
  "(Call \<Rightarrow> SmartAccount \<times> 'w \<Rightarrow> (SmartAccount \<times> 'w) option) \<Rightarrow> address \<Rightarrow> Call list
     \<Rightarrow> SmartAccount \<times> 'w \<Rightarrow> revert + SmartAccount \<times> 'w" where
  "batchExecute ext sender calls st =
     (if sender \<noteq> owner (fst st) then Inl (Revert ''SmartAccount: caller is not the owner'')
      else if entered (fst st) then Inl ReentrantCall
      else if \<not> (length calls > 0) then Inl (Revert ''SmartAccount: empty calls array'')
      else
        (case executeCalls ext 0 calls (setEntered True st) of
           Inl e \<Rightarrow> Inl e
         | Inr st' \<Rightarrow> Inr (setEntered False st')))"


text \<open>
  The reading of ``the calls run in array order'': each call runs on the state its
  predecessor left, and the run has a result only if every call succeeds.
\<close>

fun runInOrder :: "(Call \<Rightarrow> 'st \<Rightarrow> 'st option) \<Rightarrow> Call list \<Rightarrow> 'st \<Rightarrow> 'st option" where
  "runInOrder ext [] st = Some st"
| "runInOrder ext (c # cs) st =
     (case ext c st of None \<Rightarrow> None | Some st' \<Rightarrow> runInOrder ext cs st')"

text \<open>
  A callee for the examples: the chain is the table of ether balances, a call moves
  \<open>callValue\<close> from the account (address \<open>100\<close>) to \<open>callTo\<close> and fails when the account
  cannot pay.
\<close>

definition payEther :: "Call \<Rightarrow> SmartAccount \<times> (address \<Rightarrow> nat) \<Rightarrow> (SmartAccount \<times> (address \<Rightarrow> nat)) option" where
  "payEther c st =
     (let bal = snd st in
      if bal 100 < callValue c then None
      else Some (fst st, (bal(100 := bal 100 - callValue c))
                           (callTo c := (bal(100 := bal 100 - callValue c)) (callTo c) + callValue c)))"

definition etherOf :: "nat \<Rightarrow> address \<Rightarrow> nat" where
  "etherOf n = (\<lambda>a. if a = 100 then n else 0)"

section \<open>OmniFlowSmartAggregator: executing a strategy on chain\<close>





















section \<open>MultiProtocolAggregator: routes and the security scorer\<close>

text \<open>
  JavaScript numbers are modelled by real numbers: the rounding error of doubles, \<open>NaN\<close>
  and the negative zero are not represented.  A number that may be \<open>undefined\<close> is an
  \<open>option\<close>.  A route carries what the aggregator reads of a provider's quote:
  \<^item> \<open>routeId\<close>, \<open>protocol\<close>, \<open>protocolName\<close>, \<open>tool\<close> are the fields \<open>id\<close>, \<open>protocol\<close>,
    \<open>protocolName\<close>, \<open>tool\<close>;
  \<^item> \<open>executionDuration\<close> is the field of that name;
  \<^item> \<open>totalFee\<close> is \<open>parseFloat(route.totalFee)\<close>, \<open>None\<close> when the field is \<open>undefined\<close> or the
    empty string (the cases in which \<open>route.totalFee ? ... : ...\<close> takes its second branch);
  \<^item> \<open>fromAmountUSD\<close> and \<open>toAmountUSD\<close> are \<open>parseFloat\<close> of \<open>route.estimate?.fromAmountUSD\<close>
    and \<open>route.estimate?.toAmountUSD\<close>, \<open>None\<close> when the field is missing or empty;
  \<^item> \<open>estimateSteps\<close> and \<open>rawDataSteps\<close> are \<open>route.estimate?.includedSteps?.length\<close> and
    \<open>route.rawData?.includedSteps?.length\<close>.
\<close>

record ProtocolRoute =
  routeId :: string
  protocol :: string
  protocolName :: string
  tool :: "string option"
  executionDuration :: "real option"
  totalFee :: "real option"
  fromAmountUSD :: "real option"
  toAmountUSD :: "real option"
  estimateSteps :: "nat option"
  rawDataSteps :: "nat option"

record SecurityAnalysis =
  protocolSecurity :: int
  liquiditySecurity :: int
  timeSecurity :: int
  feeSecurity :: int
  routeComplexity :: int

text \<open>
  The risk factors are fixed messages of the source, in Chinese; each constructor stands
  for one of them, in the order of \<open>identifyRealRiskFactors\<close>, and \<open>DataUnavailable\<close> for
  the message ``protocol security data unavailable'' of \<open>analyzeBasicRoutes\<close>.
\<close>

datatype riskFactor =
    DataUnavailable
  | LowProtocolScore int
  | LiquidityRisk
  | TimeRisk
  | FeeRisk
  | ComplexRoute

record AnalyzedRoute = ProtocolRoute +
  securityAnalysis :: SecurityAnalysis
  overallSecurity :: int
  riskFactors :: "riskFactor list"

text \<open>
  \<open>toLowerCase\<close> on the bytes of a string: the letters \<open>A\<close> to \<open>Z\<close> (codes 65 to 90) get
  the bit of value 32 set.  The keys of the table are ASCII, and no
  character outside ASCII lower-cases to one of their letters, so for the lookup the
  byte-wise function decides as JavaScript's does.
\<close>

definition lowerChar :: "char \<Rightarrow> char" where
  "lowerChar c =
     (if (65::nat) \<le> of_char c \<and> of_char c \<le> (90::nat)
      then (case c of Char b0 b1 b2 b3 b4 b5 b6 b7 \<Rightarrow> Char b0 b1 b2 b3 b4 True b6 b7)
      else c)"

definition toLowerCase :: "string \<Rightarrow> string" where
  "toLowerCase s = map lowerChar s"

text \<open>
  The static table \<open>securityDatabase\<close> of \<open>getProtocolSecurityScore\<close>, reduced to the score
  it returns.  The members an object literal inherits (\<open>constructor\<close>, \<open>__proto__\<close>) have
  no \<open>score\<close>, so the function returns \<open>undefined\<close> for them as for any other unknown name.
\<close>

definition securityDatabase :: "string \<Rightarrow> int option" where
  "securityDatabase name =
     (if name = ''relay'' then Some 92
      else if name = ''across'' then Some 89
      else if name = ''lifi'' then Some 92
      else None)"

definition getProtocolSecurityScore :: "string \<Rightarrow> int option" where
  "getProtocolSecurityScore protocolNameArg = securityDatabase (toLowerCase protocolNameArg)"

text \<open>The argument of the lookup, \<open>route.tool || route.protocol\<close>.\<close>

definition toolOrProtocol :: "'a ProtocolRoute_scheme \<Rightarrow> string" where
  "toolOrProtocol route =
     (case tool route of
        None \<Rightarrow> protocol route
      | Some t \<Rightarrow> if t = [] then protocol route else t)"

definition orZero :: "real option \<Rightarrow> real" where
  "orZero x = (case x of None \<Rightarrow> 0 | Some v \<Rightarrow> v)"

definition assessLiquiditySecurity :: "'a ProtocolRoute_scheme \<Rightarrow> int option" where
  "assessLiquiditySecurity route =
     (let fromUSD = orZero (fromAmountUSD route);
          toUSD = orZero (toAmountUSD route)
      in if fromUSD = 0 then None
         else
           (let slippage = \<bar>fromUSD - toUSD\<bar> / fromUSD
            in if slippage < 0.001 then Some 95
               else if slippage < 0.005 then Some 90
               else if slippage < 0.01 then Some 85
               else if slippage < 0.03 then Some 75
               else Some 60))"

definition assessTimeSecurity :: "'a ProtocolRoute_scheme \<Rightarrow> int option" where
  "assessTimeSecurity route =
     (case executionDuration route of
        None \<Rightarrow> None
      | Some time \<Rightarrow>
          if time = 0 then None
          else if time \<le> 5 then Some 98
          else if time \<le> 30 then Some 92
          else if time \<le> 120 then Some 85
          else if time \<le> 600 then Some 75
          else Some 60)"

definition assessFeeReasonableness :: "'a ProtocolRoute_scheme \<Rightarrow> int option" where
  "assessFeeReasonableness route =
     (let fee = orZero (totalFee route) in
      if fee = 0 then None
      else
        (let fromUSD = orZero (fromAmountUSD route) in
         if fromUSD = 0 then None
         else
           (let feePercentage = (fee / fromUSD) * 100
            in if feePercentage < 0.1 then Some 95
               else if feePercentage < 0.5 then Some 90
               else if feePercentage < 1.0 then Some 85
               else if feePercentage < 2.0 then Some 75
               else Some 60)))"

definition stepCount :: "'a ProtocolRoute_scheme \<Rightarrow> nat option" where
  "stepCount route =
     (case estimateSteps route of
        None \<Rightarrow> rawDataSteps route
      | Some n \<Rightarrow> if n = 0 then rawDataSteps route else Some n)"

definition assessRouteComplexity :: "'a ProtocolRoute_scheme \<Rightarrow> int option" where
  "assessRouteComplexity route =
     (case stepCount route of
        None \<Rightarrow> None
      | Some steps \<Rightarrow>
          if steps = 0 then None
          else if steps \<le> 1 then Some 95
          else if steps \<le> 2 then Some 90
          else if steps \<le> 3 then Some 80
          else if steps \<le> 5 then Some 70
          else Some 60)"

text \<open>\<open>x || d\<close> on a score that may be \<open>undefined\<close>: the default replaces \<open>undefined\<close> and \<open>0\<close>.\<close>

definition orDefault :: "int option \<Rightarrow> int \<Rightarrow> int" where
  "orDefault x d = (case x of None \<Rightarrow> d | Some v \<Rightarrow> if v = 0 then d else v)"

definition identifyRealRiskFactors :: "SecurityAnalysis \<Rightarrow> riskFactor list" where
  "identifyRealRiskFactors analysis =
     (if protocolSecurity analysis \<noteq> 0 \<and> protocolSecurity analysis < 80
        then [LowProtocolScore (protocolSecurity analysis)] else []) @
     (if liquiditySecurity analysis \<noteq> 0 \<and> liquiditySecurity analysis < 80
        then [LiquidityRisk] else []) @
     (if timeSecurity analysis \<noteq> 0 \<and> timeSecurity analysis < 80 then [TimeRisk] else []) @
     (if feeSecurity analysis \<noteq> 0 \<and> feeSecurity analysis < 80 then [FeeRisk] else []) @
     (if routeComplexity analysis \<noteq> 0 \<and> routeComplexity analysis < 80
        then [ComplexRoute] else [])"

text \<open>\<open>Math.round\<close> rounds to the nearest integer, a half towards plus infinity.\<close>

definition mathRound :: "real \<Rightarrow> int" where
  "mathRound x = \<lfloor>x + 1 / 2\<rfloor>"

text \<open>
  The body of the \<open>map\<close> in \<open>analyzeBasicRoutes\<close>, for one route; the spread \<open>...route\<close>
  keeps every field of the route.
\<close>

definition analyzeRoute :: "ProtocolRoute \<Rightarrow> AnalyzedRoute" where
  "analyzeRoute route =
     (let protocolSecurityOpt = getProtocolSecurityScore (toolOrProtocol route);
          liquidity = assessLiquiditySecurity route;
          time = assessTimeSecurity route;
          fee = assessFeeReasonableness route;
          complexity = assessRouteComplexity route
      in if protocolSecurityOpt = None \<or> protocolSecurityOpt = Some 0
         then ProtocolRoute.extend route
                (AnalyzedRoute.fields
                   \<lparr>protocolSecurity = 0, liquiditySecurity = 0, timeSecurity = 0,
                      feeSecurity = 0, routeComplexity = 0\<rparr>
                   0 [DataUnavailable])
         else
           (let analysis = \<lparr>protocolSecurity = the protocolSecurityOpt,
                  liquiditySecurity = orDefault liquidity 75,
                  timeSecurity = orDefault time 75,
                  feeSecurity = orDefault fee 75,
                  routeComplexity = orDefault complexity 75\<rparr>
            in ProtocolRoute.extend route
                 (AnalyzedRoute.fields analysis
                    (mathRound (real_of_int (protocolSecurity analysis) * 0.3 +
                       real_of_int (liquiditySecurity analysis) * 0.25 +
                       real_of_int (timeSecurity analysis) * 0.2 +
                       real_of_int (feeSecurity analysis) * 0.15 +
                       real_of_int (routeComplexity analysis) * 0.1))
                    (identifyRealRiskFactors analysis))))"


text \<open>Two quotes for the examples: a Li.Fi quote routed through a tool the table does not
  know, and an Across quote.\<close>

definition stargateQuote :: ProtocolRoute where
  "stargateQuote = \<lparr>routeId = ''q1'', protocol = ''lifi'', protocolName = ''Li.Fi'',
     tool = Some ''stargate'', executionDuration = Some 20, totalFee = Some 0.002,
     fromAmountUSD = Some 4000, toAmountUSD = Some 3998, estimateSteps = Some 1,
     rawDataSteps = None\<rparr>"

definition acrossQuote :: ProtocolRoute where
  "acrossQuote = \<lparr>routeId = ''q2'', protocol = ''across'', protocolName = ''Across Protocol'',
     tool = Some ''across'', executionDuration = Some 90, totalFee = Some 0.003,
     fromAmountUSD = None, toAmountUSD = None, estimateSteps = Some 1,
     rawDataSteps = None\<rparr>"

section \<open>MultiProtocolAggregator: strategies\<close>

text \<open>
  \<open>Array.prototype.sort\<close> is stable, and with a comparator that is a consistent ordering
  it returns the elements in that order: it is modelled by the stable insertion sort
  \<open>jsSort\<close>, whose argument \<open>before a b\<close> says that \<open>compare(a, b)\<close> is not positive (a
  comparator result \<open>NaN\<close> counts as \<open>0\<close>), so that \<open>a\<close> stays in front of \<open>b\<close>.
\<close>

fun insertSorted :: "('a \<Rightarrow> 'a \<Rightarrow> bool) \<Rightarrow> 'a \<Rightarrow> 'a list \<Rightarrow> 'a list" where
  "insertSorted before x [] = [x]"
| "insertSorted before x (y # ys) =
     (if before x y then x # y # ys else y # insertSorted before x ys)"

definition jsSort :: "('a \<Rightarrow> 'a \<Rightarrow> bool) \<Rightarrow> 'a list \<Rightarrow> 'a list" where
  "jsSort before xs = foldr (insertSorted before) xs []"

text \<open>
  The score of the first sort divides by the parsed fee, which may be zero: in JavaScript
  \<open>100 / 0\<close> is \<open>Infinity\<close>, and \<open>Infinity - Infinity\<close> is \<open>NaN\<close>.  The execution time is
  never zero there (\<open>executionDuration || 300\<close>).
\<close>

datatype jsScore = Finite real | Infinity

fun scoreGe :: "jsScore \<Rightarrow> jsScore \<Rightarrow> bool" where
  "scoreGe Infinity b = True"
| "scoreGe (Finite x) Infinity = False"
| "scoreGe (Finite x) (Finite y) = (x \<ge> y)"

definition MAX_SAFE_INTEGER :: real where
  "MAX_SAFE_INTEGER = 9007199254740991"

definition singleRouteScore :: "'a ProtocolRoute_scheme \<Rightarrow> jsScore" where
  "singleRouteScore r =
     (let time = (case executionDuration r of
                    None \<Rightarrow> 300
                  | Some t \<Rightarrow> if t = 0 then 300 else t);
          fee = (case totalFee r of None \<Rightarrow> MAX_SAFE_INTEGER | Some f \<Rightarrow> f)
      in if fee = MAX_SAFE_INTEGER then Finite 0
         else if fee = 0 then Infinity
         else Finite (1000 / time + 100 / fee))"

definition singleRouteBefore :: "'a ProtocolRoute_scheme \<Rightarrow> 'a ProtocolRoute_scheme \<Rightarrow> bool" where
  "singleRouteBefore a b = scoreGe (singleRouteScore a) (singleRouteScore b)"

text \<open>
  \<open>routesByProtocol\<close>: the \<open>reduce\<close> that groups the routes by \<open>route.protocol\<close>.  The keys of
  the object come back from \<open>Object.keys\<close> in the order of their first insertion (the
  protocol keys are not integer-like and are not names of inherited members), so the
  object is an association list in that order.
\<close>

fun addToGroup ::
  "AnalyzedRoute \<Rightarrow> (string \<times> AnalyzedRoute list) list \<Rightarrow> (string \<times> AnalyzedRoute list) list" where
  "addToGroup r [] = [(protocol r, [r])]"
| "addToGroup r ((k, g) # gs) =
     (if k = protocol r then (k, g @ [r]) # gs else (k, g) # addToGroup r gs)"

definition groupByProtocol :: "AnalyzedRoute list \<Rightarrow> (string \<times> AnalyzedRoute list) list" where
  "groupByProtocol rs = foldl (\<lambda>acc r. addToGroup r acc) [] rs"

record Split =
  splitProtocol :: string
  splitProtocolName :: string
  splitRoute :: AnalyzedRoute
  amount :: real
  percentage :: real

text \<open>
  The \<open>description\<close> of a strategy is a Chinese sentence around the names it interpolates;
  the constructors keep the names: \<open>protocolName\<close> and \<open>tool\<close> of the best route, or the
  \<open>protocolName\<close>s of the two routes of a split.
\<close>

datatype description =
    BestSingleRoute string "string option"
  | RiskDiversification string string

record AggregatedRoute =
  strategy :: string
  routes :: "AnalyzedRoute list"
  totalAmount :: real
  splits :: "Split list"
  estimatedTime :: real
  totalFees :: real
  securityScore :: int
  description :: description

text \<open>\<open>route.protocolName || route.protocol\<close> and \<open>overallSecurity || 75\<close>.\<close>

definition nameOrProtocol :: "'a ProtocolRoute_scheme \<Rightarrow> string" where
  "nameOrProtocol r = (if protocolName r = [] then protocol r else protocolName r)"

definition securityOr75 :: "AnalyzedRoute \<Rightarrow> int" where
  "securityOr75 r = (if overallSecurity r = 0 then 75 else overallSecurity r)"

definition bestSingleStrategy :: "AnalyzedRoute \<Rightarrow> real \<Rightarrow> AggregatedRoute" where
  "bestSingleStrategy bestRoute amountArg =
     \<lparr>strategy = ''best-single-route'',
      routes = [bestRoute],
      totalAmount = amountArg,
      splits = [\<lparr>splitProtocol = protocol bestRoute,
                  splitProtocolName = nameOrProtocol bestRoute,
                  splitRoute = bestRoute, amount = amountArg, percentage = 100\<rparr>],
      estimatedTime = orZero (executionDuration bestRoute),
      totalFees = orZero (totalFee bestRoute),
      securityScore = securityOr75 bestRoute,
      description = BestSingleRoute (protocolName bestRoute) (tool bestRoute)\<rparr>"

definition splitStrategyOf :: "AnalyzedRoute \<Rightarrow> AnalyzedRoute \<Rightarrow> real \<Rightarrow> AggregatedRoute" where
  "splitStrategyOf route1 route2 amountArg =
     (let route1Security = securityOr75 route1;
          route2Security = securityOr75 route2;
          combinedSecurity =
            mathRound (real_of_int route1Security * 0.7 + real_of_int route2Security * 0.3);
          route1Fee = orZero (totalFee route1);
          route2Fee = orZero (totalFee route2);
          combinedFees = (route1Fee * 0.7) + (route2Fee * 0.3)
      in \<lparr>strategy = ''multi-protocol-split'',
          routes = [route1, route2],
          totalAmount = amountArg,
          splits = [\<lparr>splitProtocol = protocol route1,
                      splitProtocolName = nameOrProtocol route1,
                      splitRoute = route1, amount = amountArg * 0.7, percentage = 70\<rparr>,
                    \<lparr>splitProtocol = protocol route2,
                      splitProtocolName = nameOrProtocol route2,
                      splitRoute = route2, amount = amountArg * 0.3, percentage = 30\<rparr>],
          estimatedTime = max (orZero (executionDuration route1))
                              (orZero (executionDuration route2)),
          totalFees = combinedFees,
          securityScore = combinedSecurity,
          description = RiskDiversification (protocolName route1) (protocolName route2)\<rparr>)"

text \<open>The comparator of the final sort, and the unused \<open>calculateStrategyScore\<close>.\<close>

definition finalSortScore :: "AggregatedRoute \<Rightarrow> real" where
  "finalSortScore a = (1000 / max (estimatedTime a) 60) + (100 / max (totalFees a) 1)"

definition finalBefore :: "AggregatedRoute \<Rightarrow> AggregatedRoute \<Rightarrow> bool" where
  "finalBefore a b = (finalSortScore a \<ge> finalSortScore b)"

definition calculateStrategyScore :: "AggregatedRoute \<Rightarrow> real" where
  "calculateStrategyScore s =
     real_of_int (if securityScore s = 0 then 80 else securityScore s) * 0.4 +
     ((1000 / max (estimatedTime s) 60) * 0.3) +
     ((100 / max (totalFees s) 1) * 0.3)"

text \<open>
  \<open>generateMultiProtocolSplits\<close>; \<open>amountArg\<close> is \<open>parseFloat(params.amount)\<close>.  The first
  sort is in place, but the groups were built before it and nothing reads the sorted
  array except for its head.
\<close>

text \<open>
  The routes of the split branch: \<open>protocol1Routes[0]\<close> and \<open>protocol2Routes[0]\<close>, the
  first routes of the first two groups, when both groups are non-empty.
\<close>

fun firstRoutes :: "(string \<times> AnalyzedRoute list) list \<Rightarrow> (AnalyzedRoute \<times> AnalyzedRoute) option" where
  "firstRoutes ((k1, route1 # more1) # (k2, route2 # more2) # groups) = Some (route1, route2)"
| "firstRoutes groups = None"

definition generateMultiProtocolSplits :: "AnalyzedRoute list \<Rightarrow> real \<Rightarrow> AggregatedRoute list" where
  "generateMultiProtocolSplits rs amountArg =
     (let routesByProtocol = groupByProtocol rs;
          strategy1 =
            (case jsSort singleRouteBefore rs of
               [] \<Rightarrow> []
             | bestRoute # others \<Rightarrow> [bestSingleStrategy bestRoute amountArg]);
          strategy2 =
            (if length routesByProtocol > 1 \<and> amountArg > 0.5
             then (case firstRoutes routesByProtocol of
                     Some (route1, route2) \<Rightarrow> [splitStrategyOf route1 route2 amountArg]
                   | None \<Rightarrow> [])
             else [])
      in jsSort finalBefore (strategy1 @ strategy2))"

section \<open>MultiProtocolAggregator: querying the providers\<close>









text \<open>
  More quotes and provider outcomes for the examples: a Li.Fi quote routed through the
  tool \<open>relay\<close>, which the table knows, a fast Across quote, and the analysed routes of
  the four quotes.  \<open>onlyAcrossAnswers\<close> is a query in which Li.Fi's request is rejected
  and Across answers; in \<open>nobodyAnswers\<close> both requests are rejected.
\<close>

definition relayQuote :: ProtocolRoute where
  "relayQuote = \<lparr>routeId = ''q3'', protocol = ''lifi'', protocolName = ''Li.Fi'',
     tool = Some ''relay'', executionDuration = Some 90, totalFee = Some 0.003,
     fromAmountUSD = Some 4000, toAmountUSD = Some 3998, estimateSteps = Some 1,
     rawDataSteps = None\<rparr>"

definition fastAcrossQuote :: ProtocolRoute where
  "fastAcrossQuote = \<lparr>routeId = ''q4'', protocol = ''across'',
     protocolName = ''Across Protocol'', tool = Some ''across'', executionDuration = Some 20,
     totalFee = Some 0.002, fromAmountUSD = None, toAmountUSD = None,
     estimateSteps = Some 1, rawDataSteps = None\<rparr>"

definition stargateRoute :: AnalyzedRoute where
  "stargateRoute = analyzeRoute stargateQuote"

definition acrossRoute :: AnalyzedRoute where
  "acrossRoute = analyzeRoute acrossQuote"

definition relayRoute :: AnalyzedRoute where
  "relayRoute = analyzeRoute relayQuote"

definition fastAcrossRoute :: AnalyzedRoute where
  "fastAcrossRoute = analyzeRoute fastAcrossQuote"




section \<open>SmartAggregatorBridge: the calldata of an Across deposit\<close>

text \<open>
  \<open>generateAcrossCallData\<close> reads a route of type \<open>any\<close>.  A value it reads is one of the
  JavaScript values below (numbers are reals, \<open>NaN\<close> is not represented); a field that
  is absent, or reached through an absent object by \<open>?.\<close>, is \<open>JUndefined\<close>.  The record
  holds the ten values the function reads: \<open>route.id\<close>,
  \<open>route.estimate?.inputToken?.address\<close>, \<open>route.estimate?.outputToken?.address\<close>,
  \<open>route.fromAmount\<close>, \<open>route.toAmount\<close>, \<open>route.estimate?.outputToken?.chainId\<close>,
  \<open>route.rawData?.exclusiveRelayer\<close>, \<open>route.rawData?.timestamp\<close>,
  \<open>route.rawData?.fillDeadline\<close> and \<open>route.rawData?.exclusivityDeadline\<close>.
\<close>

datatype jsValue = JUndefined | JNull | JBool bool | JNumber real | JString string

fun falsy :: "jsValue \<Rightarrow> bool" where
  "falsy JUndefined = True"
| "falsy JNull = True"
| "falsy (JBool b) = (\<not> b)"
| "falsy (JNumber x) = (x = 0)"
| "falsy (JString s) = (s = [])"

record AcrossRouteData =
  idValue :: jsValue
  inputTokenAddress :: jsValue
  outputTokenAddress :: jsValue
  fromAmount :: jsValue
  toAmount :: jsValue
  outputTokenChainId :: jsValue
  exclusiveRelayer :: jsValue
  quoteTimestamp :: jsValue
  fillDeadline :: jsValue
  exclusivityDeadline :: jsValue

text \<open>
  The error thrown for missing fields carries a Chinese sentence around two interpolated
  parts, kept by \<open>AcrossRouteIncomplete\<close>: \<open>missingFields.join(', ')\<close> and
  \<open>route.id || 'unknown'\<close>.  \<open>AcrossAmountInvalid\<close> is the error of the \<open>BigInt\<close> check, and
  \<open>EncodingFailed\<close> an exception of the ABI encoder.
\<close>

datatype calldataError =
    AcrossRouteIncomplete string jsValue
  | AcrossAmountInvalid jsValue jsValue
  | EncodingFailed

fun joinWith :: "string \<Rightarrow> string list \<Rightarrow> string" where
  "joinWith sep [] = []"
| "joinWith sep [x] = x"
| "joinWith sep (x # y # ys) = x @ sep @ joinWith sep (y # ys)"

text \<open>The list \<open>missingFields\<close> after the nine checks, in their order.\<close>

definition missingFields :: "AcrossRouteData \<Rightarrow> string list" where
  "missingFields r =
     (if falsy (inputTokenAddress r) then [''inputToken''] else []) @
     (if falsy (outputTokenAddress r) then [''outputToken''] else []) @
     (if falsy (fromAmount r) then [''inputAmount''] else []) @
     (if falsy (toAmount r) then [''outputAmount''] else []) @
     (if falsy (outputTokenChainId r) then [''destinationChainId''] else []) @
     (if falsy (exclusiveRelayer r) then [''exclusiveRelayer''] else []) @
     (if falsy (quoteTimestamp r) then [''quoteTimestamp''] else []) @
     (if falsy (fillDeadline r) then [''fillDeadline''] else []) @
     (if exclusivityDeadline r = JUndefined then [''exclusivityDeadline''] else [])"

definition ZeroAddress :: jsValue where
  "ZeroAddress = JString ''0x0000000000000000000000000000000000000000''"

text \<open>
  The arguments handed to \<open>encodeFunctionData('depositV3', ...)\<close>, in the order of the
  signature: depositor (the zero address, a placeholder the contract replaces by its own
  address), recipient, then the nine values of the route, and the empty message.
\<close>

definition depositV3Arguments :: "AcrossRouteData \<Rightarrow> jsValue \<Rightarrow> jsValue list" where
  "depositV3Arguments r userAddress =
     [ZeroAddress, userAddress, inputTokenAddress r, outputTokenAddress r, fromAmount r,
      toAmount r, outputTokenChainId r, exclusiveRelayer r, quoteTimestamp r, fillDeadline r,
      exclusivityDeadline r, JString ''0x'']"

text \<open>
  \<open>BigInt\<close> and the encoder of the \<open>ethers\<close> library are parameters: \<open>bigIntAccepts v\<close> says
  that \<open>BigInt(v)\<close> does not throw, and \<open>encodeFunctionData\<close> answers \<open>None\<close> when the
  library throws.
\<close>

definition generateAcrossCallData ::
  "(jsValue \<Rightarrow> bool) \<Rightarrow> (string \<Rightarrow> jsValue list \<Rightarrow> string option) \<Rightarrow> AcrossRouteData \<Rightarrow> jsValue
     \<Rightarrow> calldataError + string" where
  "generateAcrossCallData bigIntAccepts encodeFunctionData r userAddress =
     (if length (missingFields r) > 0
      then Inl (AcrossRouteIncomplete (joinWith '', '' (missingFields r))
                  (if falsy (idValue r) then JString ''unknown'' else idValue r))
      else if \<not> (bigIntAccepts (fromAmount r) \<and> bigIntAccepts (toAmount r))
      then Inl (AcrossAmountInvalid (fromAmount r) (toAmount r))
      else
        (case encodeFunctionData ''depositV3'' (depositV3Arguments r userAddress) of
           None \<Rightarrow> Inl EncodingFailed
         | Some callDataHex \<Rightarrow> Inr callDataHex))"

text \<open>An Across route whose quote has no \<open>exclusiveRelayer\<close> and no \<open>fillDeadline\<close>.\<close>

definition quoteWithoutRelayer :: AcrossRouteData where
  "quoteWithoutRelayer = \<lparr>idValue = JString ''across_1'',
     inputTokenAddress = JString ''0xC02aaA39b223FE8D0A0e5C4F27eAD9083C756Cc2'',
     outputTokenAddress = JString ''0x4200000000000000000000000000000000000006'',
     fromAmount = JString ''1000000000000000000'', toAmount = JString ''998000000000000000'',
     outputTokenChainId = JNumber 10, exclusiveRelayer = JUndefined,
     quoteTimestamp = JNumber 1700000000, fillDeadline = JUndefined,
     exclusivityDeadline = JNumber 0\<rparr>"

chapter \<open>Verified properties\<close>

section \<open>Recovery succeeds exactly under threshold, delay and freshness\<close>

lemma executeRecovery_success_iff:
  assumes "blockTimestamp \<le> MAX_UINT256"
  shows "(\<exists>s'. executeRecovery blockTimestamp recoveryId s = Inr s') \<longleftrightarrow>
         (requiredGuardians s \<le> confirmations (recoveries s recoveryId) \<and>
          timestamp (recoveries s recoveryId) + RECOVERY_PERIOD \<le> blockTimestamp \<and>
          \<not> executed (recoveries s recoveryId))"
  using assms by (auto simp: executeRecovery_def Let_def)

lemma executeRecovery_effect:
  assumes "executeRecovery blockTimestamp recoveryId s = Inr s'"
  shows "s' = internalExecuteRecovery recoveryId s"
  using assms by (auto simp: executeRecovery_def Let_def split: if_splits)

lemma internalExecuteRecovery_owner:
  "owner (internalExecuteRecovery recoveryId s) = newOwner (recoveries s recoveryId)"
  "executed (recoveries (internalExecuteRecovery recoveryId s) recoveryId)"
  by (simp_all add: internalExecuteRecovery_def Let_def)

text \<open>
  C1.  With \<open>r\<close> the stored request \<open>recoveries s recoveryId\<close> and a block timestamp in the
  \<open>uint256\<close> range: \<open>executeRecovery\<close> returns (does not revert) if and only if
  \<open>confirmations r \<ge> requiredGuardians\<close>, \<open>timestamp r + RECOVERY_PERIOD \<le> block.timestamp\<close>
  (two days, 172800 seconds) and \<open>r\<close> is not executed; when it returns, the owner is
  \<open>newOwner r\<close> and the request is marked executed; otherwise it reverts, so no owner
  change is kept.  \<open>confirmRecovery\<close>, when it returns, has executed the recovery exactly
  when the count including the new confirmation reaches the threshold and the delay has
  passed, and has left the owner and the executed flag untouched otherwise.
\<close>

theorem recovery_succeeds_iff_threshold_and_delay:
  assumes "blockTimestamp \<le> MAX_UINT256"
  shows "RECOVERY_PERIOD = 172800 \<and>
    ((\<exists>s'. executeRecovery blockTimestamp recoveryId s = Inr s') \<longleftrightarrow>
       (requiredGuardians s \<le> confirmations (recoveries s recoveryId) \<and>
        timestamp (recoveries s recoveryId) + RECOVERY_PERIOD \<le> blockTimestamp \<and>
        \<not> executed (recoveries s recoveryId))) \<and>
    (\<forall>s'. executeRecovery blockTimestamp recoveryId s = Inr s' \<longrightarrow>
       owner s' = newOwner (recoveries s recoveryId) \<and>
       executed (recoveries s' recoveryId)) \<and>
    (\<forall>sender s'. confirmRecovery sender blockTimestamp recoveryId s = Inr s' \<longrightarrow>
       (if requiredGuardians s \<le> confirmations (recoveries s recoveryId) + 1 \<and>
           timestamp (recoveries s recoveryId) + RECOVERY_PERIOD \<le> blockTimestamp
        then owner s' = newOwner (recoveries s recoveryId) \<and>
             executed (recoveries s' recoveryId)
        else owner s' = owner s \<and> \<not> executed (recoveries s' recoveryId)))"
proof -
  have period: "RECOVERY_PERIOD = 172800"
    by (simp add: RECOVERY_PERIOD_def)
  have exec: "\<forall>s'. executeRecovery blockTimestamp recoveryId s = Inr s' \<longrightarrow>
       owner s' = newOwner (recoveries s recoveryId) \<and> executed (recoveries s' recoveryId)"
    using executeRecovery_effect internalExecuteRecovery_owner by blast
  have conf: "\<forall>sender s'. confirmRecovery sender blockTimestamp recoveryId s = Inr s' \<longrightarrow>
       (if requiredGuardians s \<le> confirmations (recoveries s recoveryId) + 1 \<and>
           timestamp (recoveries s recoveryId) + RECOVERY_PERIOD \<le> blockTimestamp
        then owner s' = newOwner (recoveries s recoveryId) \<and>
             executed (recoveries s' recoveryId)
        else owner s' = owner s \<and> \<not> executed (recoveries s' recoveryId))"
    using assms
    by (auto simp: confirmRecovery_def internalExecuteRecovery_def Let_def
             split: if_splits)
  from period executeRecovery_success_iff [OF assms] exec conf show ?thesis
    by blast
qed


theorem recovery_succeeds_iff_threshold_and_delay_witness:
  "(173800::nat) \<le> MAX_UINT256 \<and>
   (\<exists>s'. executeRecovery 173800 0 testAccount = Inr s' \<and> owner s' = 9 \<and>
      executed (recoveries s' 0)) \<and>
   (\<exists>s'. confirmRecovery 4 173800 0 testAccount = Inr s' \<and> owner s' = 9) \<and>
   (\<exists>s'. confirmRecovery 4 5000 0 testAccount = Inr s' \<and> owner s' = 1) \<and>
   (\<nexists>s'. executeRecovery 5000 0 testAccount = Inr s')"
proof -
  have late: "(173800::nat) \<le> MAX_UINT256" and early: "(5000::nat) \<le> MAX_UINT256"
    by (simp_all add: MAX_UINT256_def)
  have c1: "confirmRecovery 4 173800 0 testAccount
            = Inr (internalExecuteRecovery 0 (testAccount\<lparr>recoveries := (recoveries testAccount)(0 :=
                pendingRecovery\<lparr>confirmed := (confirmed pendingRecovery)(4 := True),
                  confirmations := 3\<rparr>)\<rparr>))"
    by (simp add: confirmRecovery_def testAccount_def pendingRecovery_def
          RECOVERY_PERIOD_def MAX_UINT256_def Let_def)
  have c2: "confirmRecovery 4 5000 0 testAccount
            = Inr (testAccount\<lparr>recoveries := (recoveries testAccount)(0 :=
                pendingRecovery\<lparr>confirmed := (confirmed pendingRecovery)(4 := True),
                  confirmations := 3\<rparr>)\<rparr>)"
    by (simp add: confirmRecovery_def testAccount_def pendingRecovery_def
          RECOVERY_PERIOD_def MAX_UINT256_def Let_def)
  have vals: "requiredGuardians testAccount = 2" "recoveries testAccount 0 = pendingRecovery"
    "confirmations pendingRecovery = 2" "timestamp pendingRecovery = 1000"
    "\<not> executed pendingRecovery" "newOwner pendingRecovery = 9" "owner testAccount = 1"
    by (simp_all add: testAccount_def pendingRecovery_def)
  note L = recovery_succeeds_iff_threshold_and_delay [OF late, of 0 testAccount]
  note E = recovery_succeeds_iff_threshold_and_delay [OF early, of 0 testAccount]
  from L vals have "\<exists>s'. executeRecovery 173800 0 testAccount = Inr s'"
    by simp
  with L vals have a: "\<exists>s'. executeRecovery 173800 0 testAccount = Inr s' \<and> owner s' = 9 \<and>
      executed (recoveries s' 0)"
    by auto
  from L c1 vals have b: "\<exists>s'. confirmRecovery 4 173800 0 testAccount = Inr s' \<and> owner s' = 9"
    by (simp add: internalExecuteRecovery_def Let_def)
  from E c2 vals have c: "\<exists>s'. confirmRecovery 4 5000 0 testAccount = Inr s' \<and> owner s' = 1"
    by simp
  from E vals have d: "\<nexists>s'. executeRecovery 5000 0 testAccount = Inr s'"
    by simp
  from late a b c d show ?thesis by blast
qed

section \<open>The owner may be a guardian after construction and after recovery\<close>

lemma addGuardian_keeps_owner_out:
  "addGuardian sender guardian s = Inr s' \<Longrightarrow> \<not> guardians s (owner s) \<Longrightarrow>
   \<not> guardians s' (owner s')"
  by (auto simp: addGuardian_def split: if_splits)

lemma removeGuardian_keeps_owner_out:
  "removeGuardian sender guardian s = Inr s' \<Longrightarrow> \<not> guardians s (owner s) \<Longrightarrow>
   \<not> guardians s' (owner s')"
  by (auto simp: removeGuardian_def split: if_splits)

text \<open>
  C2.  \<open>addGuardian\<close> refuses the owner (\<open>owner cannot be guardian\<close>), but the constructor
  never compares \<open>_guardians[i]\<close> with \<open>_owner\<close>, and \<open>initiateRecovery\<close> only refuses the
  current owner and the zero address, so a guardian can be made owner by recovery.  Both
  runs below end in a state whose owner is a guardian: the deployment with owner \<open>1\<close> and
  guardians \<open>[1, 2]\<close>, and on the test account the recovery that guardian \<open>2\<close> initiates
  towards guardian \<open>3\<close>, which \<open>3\<close> confirms and anyone executes after the delay.
\<close>

theorem owner_can_be_guardian:
  "(case constructor 1 [1, 2] 1 7 of
      Inl e \<Rightarrow> False
    | Inr s \<Rightarrow> guardians s (owner s)) \<and>
   (case initiateRecovery 2 1000 3 testAccount of
      Inl e \<Rightarrow> False
    | Inr s1 \<Rightarrow>
       (case confirmRecovery 3 2000 1 s1 of
          Inl e \<Rightarrow> False
        | Inr s2 \<Rightarrow>
           (case executeRecovery 173800 1 s2 of
              Inl e \<Rightarrow> False
            | Inr s3 \<Rightarrow> \<not> guardians testAccount (owner testAccount) \<and>
                         guardians s3 (owner s3))))"
  by (simp add: constructor_def freshAccount_def initiateRecovery_def confirmRecovery_def
        executeRecovery_def internalExecuteRecovery_def testAccount_def pendingRecovery_def
        emptyRecovery_def RECOVERY_PERIOD_def MAX_UINT256_def Let_def)

section \<open>batchExecute is all or nothing\<close>

lemma executeCalls_all_succeed:
  "runInOrder ext calls st = Some st' \<Longrightarrow> executeCalls ext i calls st = Inr st'"
proof (induction calls arbitrary: st i)
  case Nil
  then show ?case by simp
next
  case (Cons c cs)
  then show ?case by (cases "ext c st") auto
qed

lemma executeCalls_first_failure:
  "k < length calls \<Longrightarrow> runInOrder ext (take k calls) st = Some stk \<Longrightarrow>
   ext (calls ! k) stk = None \<Longrightarrow> executeCalls ext i calls st = Inl (CallFailed (i + k))"
proof (induction calls arbitrary: st i k)
  case Nil
  then show ?case by simp
next
  case (Cons c cs)
  show ?case
  proof (cases k)
    case 0
    with Cons.prems show ?thesis by simp
  next
    case (Suc j)
    with Cons.prems obtain st1 where st1: "ext c st = Some st1"
      and rest: "runInOrder ext (take j cs) st1 = Some stk"
      by (cases "ext c st") auto
    from Cons.prems Suc have "j < length cs" "ext (cs ! j) stk = None"
      by auto
    from Cons.IH [OF this(1) rest this(2), of "Suc i"] st1 Suc show ?thesis
      by simp
  qed
qed

text \<open>
  C4.  An empty \<open>calls\<close> array is rejected.  For a non-empty array submitted by the owner
  outside a guarded call: if the calls, run in array order from the guarded state, all
  succeed, \<open>batchExecute\<close> returns the state the last one left (with the guard
  released); if call \<open>k\<close> fails on the state left by calls \<open>0 .. k - 1\<close>, \<open>batchExecute\<close>
  reverts with the index \<open>k\<close>: the result is an error that carries no state, so neither
  the effects of the calls before \<open>k\<close> are kept nor is any call after \<open>k\<close> run.
\<close>

theorem batchExecute_all_or_nothing:
  "isl (batchExecute ext sender [] st) \<and>
   (calls \<noteq> [] \<and> sender = owner (fst st) \<and> \<not> entered (fst st) \<longrightarrow>
      (\<forall>st'. runInOrder ext calls (setEntered True st) = Some st' \<longrightarrow>
         batchExecute ext sender calls st = Inr (setEntered False st')) \<and>
      (\<forall>k stk. k < length calls \<and>
         runInOrder ext (take k calls) (setEntered True st) = Some stk \<and>
         ext (calls ! k) stk = None \<longrightarrow>
         batchExecute ext sender calls st = Inl (CallFailed k)))"
proof -
  have empty: "isl (batchExecute ext sender [] st)"
    by (simp add: batchExecute_def)
  have ok: "batchExecute ext sender calls st = Inr (setEntered False st')"
    if "calls \<noteq> []" "sender = owner (fst st)" "\<not> entered (fst st)"
       "runInOrder ext calls (setEntered True st) = Some st'" for st'
    using that executeCalls_all_succeed [of ext calls "setEntered True st" st' 0]
    by (simp add: batchExecute_def)
  have bad: "batchExecute ext sender calls st = Inl (CallFailed k)"
    if "calls \<noteq> []" "sender = owner (fst st)" "\<not> entered (fst st)" "k < length calls"
       "runInOrder ext (take k calls) (setEntered True st) = Some stk"
       "ext (calls ! k) stk = None" for k stk
    using that executeCalls_first_failure [of k calls ext "setEntered True st" stk 0]
    by (simp add: batchExecute_def)
  from empty ok bad show ?thesis by blast
qed

theorem batchExecute_all_or_nothing_witness:
  "batchExecute payEther 1
     [\<lparr>callTo = 2, callValue = 30, callData = []\<rparr>, \<lparr>callTo = 3, callValue = 80, callData = []\<rparr>]
     (testAccount, etherOf 100) = Inl (CallFailed 1) \<and>
   (\<exists>st'. batchExecute payEther 1
     [\<lparr>callTo = 2, callValue = 30, callData = []\<rparr>, \<lparr>callTo = 3, callValue = 60, callData = []\<rparr>]
     (testAccount, etherOf 100) = Inr st' \<and> snd st' 2 = 30 \<and> snd st' 3 = 60 \<and> snd st' 100 = 10)"
proof -
  let ?c1 = "\<lparr>callTo = 2, callValue = 30, callData = []\<rparr>"
  let ?c2 = "\<lparr>callTo = 3, callValue = 80, callData = []\<rparr>"
  let ?c3 = "\<lparr>callTo = 3, callValue = 60, callData = []\<rparr>"
  let ?st = "(testAccount, etherOf 100)"
  let ?mid = "(testAccount\<lparr>entered := True\<rparr>, (etherOf 100)(100 := 70, 2 := 30))"
  let ?fin = "(testAccount\<lparr>entered := True\<rparr>, (etherOf 100)(100 := 10, 2 := 30, 3 := 60))"
  have pre: "[?c1, ?c2] \<noteq> []" "[?c1, ?c3] \<noteq> []" "(1::address) = owner (fst ?st)"
    "\<not> entered (fst ?st)"
    by (simp_all add: testAccount_def)
  have step1: "payEther ?c1 (setEntered True ?st) = Some ?mid"
    by (auto simp: payEther_def setEntered_def etherOf_def Let_def fun_eq_iff)
  have fail2: "payEther ?c2 ?mid = None"
    by (simp add: payEther_def etherOf_def Let_def)
  have step3: "payEther ?c3 ?mid = Some ?fin"
    by (auto simp: payEther_def etherOf_def Let_def fun_eq_iff)
  have prefix: "runInOrder payEther (take 1 [?c1, ?c2]) (setEntered True ?st) = Some ?mid"
    using step1 by simp
  have whole: "runInOrder payEther [?c1, ?c3] (setEntered True ?st) = Some ?fin"
    using step1 step3 by simp
  from batchExecute_all_or_nothing [of payEther 1 ?st "[?c1, ?c2]"] pre prefix fail2
  have a: "batchExecute payEther 1 [?c1, ?c2] ?st = Inl (CallFailed 1)"
    by (metis One_nat_def length_Cons less_Suc_eq list.size(3) nth_Cons_0 nth_Cons_Suc)
  from batchExecute_all_or_nothing [of payEther 1 ?st "[?c1, ?c3]"] pre whole
  have "batchExecute payEther 1 [?c1, ?c3] ?st = Inr (setEntered False ?fin)"
    by blast
  then have b: "\<exists>st'. batchExecute payEther 1 [?c1, ?c3] ?st = Inr st' \<and>
      snd st' 2 = 30 \<and> snd st' 3 = 60 \<and> snd st' 100 = 10"
    by (simp add: setEntered_def)
  from a b show ?thesis by blast
qed

section \<open>A failed bridge call does not revert executeAggregatedRoute\<close>



section \<open>What executeAggregatedRoute checks, and what it does when bridges fail\<close>


















section \<open>The security scorer\<close>

lemma getProtocolSecurityScore_known:
  "getProtocolSecurityScore n = Some p \<Longrightarrow> p = 92 \<or> p = 89"
  by (auto simp: getProtocolSecurityScore_def securityDatabase_def split: if_splits)

lemma getProtocolSecurityScore_None_iff:
  "getProtocolSecurityScore n = None \<longleftrightarrow> toLowerCase n \<notin> {''relay'', ''across'', ''lifi''}"
  by (simp add: getProtocolSecurityScore_def securityDatabase_def)

lemma analyzed_fields:
  "overallSecurity (ProtocolRoute.extend r (AnalyzedRoute.fields sa ov rf)) = ov"
  "riskFactors (ProtocolRoute.extend r (AnalyzedRoute.fields sa ov rf)) = rf"
  "securityAnalysis (ProtocolRoute.extend r (AnalyzedRoute.fields sa ov rf)) = sa"
  "protocol (ProtocolRoute.extend r (AnalyzedRoute.fields sa ov rf)) = protocol r"
  "tool (ProtocolRoute.extend r (AnalyzedRoute.fields sa ov rf)) = tool r"
  "executionDuration (ProtocolRoute.extend r (AnalyzedRoute.fields sa ov rf)) = executionDuration r"
  "totalFee (ProtocolRoute.extend r (AnalyzedRoute.fields sa ov rf)) = totalFee r"
  "ProtocolRoute.truncate (ProtocolRoute.extend r (AnalyzedRoute.fields sa ov rf)) = r"
  by (simp_all add: ProtocolRoute.defs AnalyzedRoute.defs)

text \<open>
  C7.  The scorer is the function \<open>analyzeRoute\<close>: its result depends on the route and on
  the static table only.  The name it looks up is \<open>route.tool || route.protocol\<close>,
  lower-cased.  When the table does not hold that name (it is none of \<open>relay\<close>, \<open>across\<close>,
  \<open>lifi\<close>), \<open>overallSecurity\<close> is \<open>0\<close> and the risk factors are the one
  data-unavailable flag.  When the table holds it with score \<open>p\<close>, the reported
  \<open>protocolSecurity\<close> is \<open>p\<close> and \<open>overallSecurity\<close> is the weighted sum of the five
  reported sub-scores, \<open>0.30\<close>, \<open>0.25\<close>, \<open>0.20\<close>, \<open>0.15\<close>, \<open>0.10\<close>, rounded to the nearest
  integer.
\<close>

theorem scorer_zero_when_unknown_weighted_when_known:
  "(getProtocolSecurityScore (toolOrProtocol r) = None \<longleftrightarrow>
      toLowerCase (toolOrProtocol r) \<notin> {''relay'', ''across'', ''lifi''}) \<and>
   (getProtocolSecurityScore (toolOrProtocol r) = None \<longrightarrow>
      overallSecurity (analyzeRoute r) = 0 \<and> riskFactors (analyzeRoute r) = [DataUnavailable] \<and>
      riskFactors (analyzeRoute r) \<noteq> []) \<and>
   (\<forall>p. getProtocolSecurityScore (toolOrProtocol r) = Some p \<longrightarrow>
      protocolSecurity (securityAnalysis (analyzeRoute r)) = p \<and>
      overallSecurity (analyzeRoute r) =
        round (0.30 * real_of_int (protocolSecurity (securityAnalysis (analyzeRoute r))) +
               0.25 * real_of_int (liquiditySecurity (securityAnalysis (analyzeRoute r))) +
               0.20 * real_of_int (timeSecurity (securityAnalysis (analyzeRoute r))) +
               0.15 * real_of_int (feeSecurity (securityAnalysis (analyzeRoute r))) +
               0.10 * real_of_int (routeComplexity (securityAnalysis (analyzeRoute r)))))"
proof -
  have unknown: "overallSecurity (analyzeRoute r) = 0 \<and> riskFactors (analyzeRoute r) = [DataUnavailable]"
    if "getProtocolSecurityScore (toolOrProtocol r) = None"
    using that by (simp add: analyzeRoute_def analyzed_fields Let_def)
  have known: "protocolSecurity (securityAnalysis (analyzeRoute r)) = p \<and>
      overallSecurity (analyzeRoute r) =
        round (0.30 * real_of_int (protocolSecurity (securityAnalysis (analyzeRoute r))) +
               0.25 * real_of_int (liquiditySecurity (securityAnalysis (analyzeRoute r))) +
               0.20 * real_of_int (timeSecurity (securityAnalysis (analyzeRoute r))) +
               0.15 * real_of_int (feeSecurity (securityAnalysis (analyzeRoute r))) +
               0.10 * real_of_int (routeComplexity (securityAnalysis (analyzeRoute r))))"
    if k: "getProtocolSecurityScore (toolOrProtocol r) = Some p" for p
  proof -
    from getProtocolSecurityScore_known [OF k] have "p \<noteq> 0" by auto
    with k show ?thesis
      by (simp add: analyzeRoute_def analyzed_fields Let_def mathRound_def round_def
            mult.commute)
  qed
  show ?thesis
  proof (intro conjI allI impI)
    show "(getProtocolSecurityScore (toolOrProtocol r) = None) =
      (toLowerCase (toolOrProtocol r) \<notin> {''relay'', ''across'', ''lifi''})"
      by (rule getProtocolSecurityScore_None_iff)
  qed (use unknown known in simp_all)
qed

lemma stargate_analysis:
  "getProtocolSecurityScore (toolOrProtocol stargateQuote) = None"
  by (simp add: getProtocolSecurityScore_def securityDatabase_def toolOrProtocol_def
        stargateQuote_def toLowerCase_def lowerChar_def)

lemma across_analysis:
  "getProtocolSecurityScore (toolOrProtocol acrossQuote) = Some 89"
  "securityAnalysis (analyzeRoute acrossQuote) =
     \<lparr>protocolSecurity = 89, liquiditySecurity = 75, timeSecurity = 85, feeSecurity = 75,
      routeComplexity = 95\<rparr>"
  by (simp_all add: getProtocolSecurityScore_def securityDatabase_def toolOrProtocol_def
        acrossQuote_def toLowerCase_def lowerChar_def analyzeRoute_def analyzed_fields Let_def
        assessLiquiditySecurity_def assessTimeSecurity_def assessFeeReasonableness_def
        assessRouteComplexity_def stepCount_def orZero_def orDefault_def)

theorem scorer_zero_when_unknown_weighted_when_known_witness:
  "getProtocolSecurityScore (toolOrProtocol stargateQuote) = None \<and>
   overallSecurity (analyzeRoute stargateQuote) = 0 \<and>
   riskFactors (analyzeRoute stargateQuote) = [DataUnavailable] \<and>
   getProtocolSecurityScore (toolOrProtocol acrossQuote) = Some 89 \<and>
   overallSecurity (analyzeRoute acrossQuote) = 83"
proof -
  from scorer_zero_when_unknown_weighted_when_known [of stargateQuote] stargate_analysis
  have a: "overallSecurity (analyzeRoute stargateQuote) = 0 \<and>
           riskFactors (analyzeRoute stargateQuote) = [DataUnavailable]"
    by blast
  from scorer_zero_when_unknown_weighted_when_known [of acrossQuote] across_analysis(1)
  have "overallSecurity (analyzeRoute acrossQuote) =
        round (0.30 * real_of_int (protocolSecurity (securityAnalysis (analyzeRoute acrossQuote))) +
               0.25 * real_of_int (liquiditySecurity (securityAnalysis (analyzeRoute acrossQuote))) +
               0.20 * real_of_int (timeSecurity (securityAnalysis (analyzeRoute acrossQuote))) +
               0.15 * real_of_int (feeSecurity (securityAnalysis (analyzeRoute acrossQuote))) +
               0.10 * real_of_int (routeComplexity (securityAnalysis (analyzeRoute acrossQuote))))"
    by blast
  then have b: "overallSecurity (analyzeRoute acrossQuote) = 83"
    by (simp add: across_analysis(2) round_def)
  from a b stargate_analysis across_analysis(1) show ?thesis by blast
qed

section \<open>Sorting, grouping and the strategies generated\<close>

lemma set_insertSorted: "set (insertSorted before x xs) = insert x (set xs)"
  by (induction xs) auto



lemma sorted_insertSorted:
  assumes total: "\<And>a b. before a b \<or> before b a"
    and trans: "\<And>a b c. before a b \<Longrightarrow> before b c \<Longrightarrow> before a c"
    and sorted: "sorted_wrt before xs"
  shows "sorted_wrt before (insertSorted before x xs)"
  using sorted
proof (induction xs)
  case Nil
  then show ?case by simp
next
  case (Cons y ys)
  show ?case
  proof (cases "before x y")
    case True
    with Cons.prems trans show ?thesis by auto
  next
    case False
    with total have "before y x" by blast
    with False Cons show ?thesis by (auto simp: set_insertSorted)
  qed
qed

lemma sorted_jsSort:
  assumes "\<And>a b. before a b \<or> before b a"
    and "\<And>a b c. before a b \<Longrightarrow> before b c \<Longrightarrow> before a c"
  shows "sorted_wrt before (jsSort before xs)"
proof (induction xs)
  case Nil
  then show ?case by (simp add: jsSort_def)
next
  case (Cons x xs)
  have "jsSort before (x # xs) = insertSorted before x (jsSort before xs)"
    by (simp add: jsSort_def)
  with sorted_insertSorted [of before "jsSort before xs" x] assms Cons show ?case
    by auto
qed

text \<open>
  C6, amended.  The list \<open>generateMultiProtocolSplits\<close> returns is sorted in descending
  order of the score of its final sort, \<open>1000 / max(estimatedTime, 60) + 100 /
  max(totalFees, 1)\<close>: speed and fee only.  The security score does not enter the
  ranking; \<open>calculateStrategyScore\<close>, which weighs it with 0.4, is never called.
\<close>

theorem strategies_sorted_by_speed_and_fee:
  "sorted_wrt (\<lambda>a b. finalSortScore a \<ge> finalSortScore b)
     (generateMultiProtocolSplits rs amountArg) \<and>
   (\<forall>a. finalSortScore a = 1000 / max (estimatedTime a) 60 + 100 / max (totalFees a) 1)"
proof -
  have "sorted_wrt finalBefore (jsSort finalBefore xs)" for xs
    by (rule sorted_jsSort) (auto simp: finalBefore_def)
  then have "sorted_wrt finalBefore (generateMultiProtocolSplits rs amountArg)"
    by (simp add: generateMultiProtocolSplits_def Let_def)
  moreover have "finalBefore = (\<lambda>a b. finalSortScore a \<ge> finalSortScore b)"
    by (simp add: finalBefore_def fun_eq_iff)
  ultimately show ?thesis by (simp add: finalSortScore_def)
qed
















lemma analyzeRoute_keeps:
  "protocol (analyzeRoute q) = protocol q"
  "executionDuration (analyzeRoute q) = executionDuration q"
  "totalFee (analyzeRoute q) = totalFee q"
  "tool (analyzeRoute q) = tool q"
  by (simp_all add: analyzeRoute_def analyzed_fields Let_def)

lemma example_routes:
  "protocol stargateRoute = ''lifi''" "protocol acrossRoute = ''across''"
  "protocol relayRoute = ''lifi''" "protocol fastAcrossRoute = ''across''"
  "executionDuration stargateRoute = Some 20" "executionDuration acrossRoute = Some 90"
  "executionDuration relayRoute = Some 90" "executionDuration fastAcrossRoute = Some 20"
  "totalFee stargateRoute = Some 0.002" "totalFee acrossRoute = Some 0.003"
  "totalFee relayRoute = Some 0.003" "totalFee fastAcrossRoute = Some 0.002"
  by (simp_all add: stargateRoute_def acrossRoute_def relayRoute_def fastAcrossRoute_def
        analyzeRoute_keeps stargateQuote_def acrossQuote_def relayQuote_def fastAcrossQuote_def)

lemma example_security:
  "overallSecurity stargateRoute = 0" "overallSecurity acrossRoute = 83"
  "overallSecurity relayRoute = 92" "overallSecurity fastAcrossRoute = 85"
  by (simp_all add: stargateRoute_def acrossRoute_def relayRoute_def fastAcrossRoute_def
        stargateQuote_def acrossQuote_def relayQuote_def fastAcrossQuote_def
        getProtocolSecurityScore_def securityDatabase_def toolOrProtocol_def
        toLowerCase_def lowerChar_def analyzeRoute_def analyzed_fields Let_def
        assessLiquiditySecurity_def assessTimeSecurity_def assessFeeReasonableness_def
        assessRouteComplexity_def stepCount_def orZero_def orDefault_def mathRound_def)

lemma strategy_fields:
  "securityScore (bestSingleStrategy b x) = securityOr75 b"
  "estimatedTime (bestSingleStrategy b x) = orZero (executionDuration b)"
  "totalFees (bestSingleStrategy b x) = orZero (totalFee b)"
  "strategy (splitStrategyOf a1 a2 x) = ''multi-protocol-split''"
  "map splitRoute (splits (splitStrategyOf a1 a2 x)) = [a1, a2]"
  "map percentage (splits (splitStrategyOf a1 a2 x)) = [70, 30]"
  "map amount (splits (splitStrategyOf a1 a2 x)) = [x * 0.7, x * 0.3]"
  "estimatedTime (splitStrategyOf a1 a2 x) =
     max (orZero (executionDuration a1)) (orZero (executionDuration a2))"
  "totalFees (splitStrategyOf a1 a2 x) = 0.7 * orZero (totalFee a1) + 0.3 * orZero (totalFee a2)"
  "securityScore (splitStrategyOf a1 a2 x) =
     round (0.7 * real_of_int (securityOr75 a1) + 0.3 * real_of_int (securityOr75 a2))"
  by (simp_all add: bestSingleStrategy_def splitStrategyOf_def Let_def mathRound_def round_def
        mult.commute)

lemma two_routes_two_strategies:
  assumes "protocol a1 \<noteq> protocol a2" and "x > 0.5" and "\<not> singleRouteBefore a1 a2"
    and "finalBefore (bestSingleStrategy a2 x) (splitStrategyOf a1 a2 x)"
  shows "generateMultiProtocolSplits [a1, a2] x
         = [bestSingleStrategy a2 x, splitStrategyOf a1 a2 x]"
proof -
  from assms(1) have g: "groupByProtocol [a1, a2] = [(protocol a1, [a1]), (protocol a2, [a2])]"
    by (simp add: groupByProtocol_def)
  from assms(3) have s: "jsSort singleRouteBefore [a1, a2] = [a2, a1]"
    by (simp add: jsSort_def)
  from assms(4) have f: "jsSort finalBefore [bestSingleStrategy a2 x, splitStrategyOf a1 a2 x]
      = [bestSingleStrategy a2 x, splitStrategyOf a1 a2 x]"
    by (simp add: jsSort_def)
  from assms(2) g s f show ?thesis
    by (simp add: generateMultiProtocolSplits_def Let_def)
qed

lemma relay_fast_strategies:
  "generateMultiProtocolSplits [relayRoute, fastAcrossRoute] 1
   = [bestSingleStrategy fastAcrossRoute 1, splitStrategyOf relayRoute fastAcrossRoute 1]"
proof (rule two_routes_two_strategies)
  show "protocol relayRoute \<noteq> protocol fastAcrossRoute"
    by (simp add: example_routes)
  show "(0.5::real) < 1" by simp
  show "\<not> singleRouteBefore relayRoute fastAcrossRoute"
    by (simp add: singleRouteBefore_def singleRouteScore_def example_routes
          MAX_SAFE_INTEGER_def Let_def)
  show "finalBefore (bestSingleStrategy fastAcrossRoute 1) (splitStrategyOf relayRoute fastAcrossRoute 1)"
    by (simp add: finalBefore_def finalSortScore_def strategy_fields example_routes orZero_def)
qed

text \<open>
  C6, as stated, fails.  Li.Fi answers with a quote through \<open>relay\<close> (90 s, fee 0.003,
  security 92) and Across with a fast one (20 s, fee 0.002, security 85), for the amount
  1.  The best single route is the Across one; the split has security 90.  The final
  sort puts the single route first (score about 116.7 against 111.1), while the
  composite score \<open>securityScore * 0.4 + speed * 0.3 + fee * 0.3\<close> is 69 for it and about
  69.33 for the split behind it.
\<close>

theorem ranking_ignores_security:
  "\<not> sorted_wrt (\<lambda>a b. calculateStrategyScore a \<ge> calculateStrategyScore b)
       (generateMultiProtocolSplits [relayRoute, fastAcrossRoute] 1)"
  by (simp add: relay_fast_strategies calculateStrategyScore_def strategy_fields
        example_routes example_security securityOr75_def orZero_def round_def)





section \<open>Provider failures are isolated\<close>








section \<open>Across calldata is built from complete quotes only\<close>

lemma joinWith_mentions: "n \<in> set names \<Longrightarrow> sublist n (joinWith sep names)"
proof (induction sep names rule: joinWith.induct)
  case (1 sep)
  then show ?case by simp
next
  case (2 sep x)
  then show ?case by simp
next
  case (3 sep x y ys)
  show ?case
  proof (cases "n = x")
    case True
    then show ?thesis by simp
  next
    case False
    with 3 have "sublist n (joinWith sep (y # ys))" by simp
    then obtain ps ss where "joinWith sep (y # ys) = ps @ n @ ss"
      by (auto simp: sublist_def)
    then have "joinWith sep (x # y # ys) = (x @ sep @ ps) @ n @ ss" by simp
    then show ?thesis unfolding sublist_def by blast
  qed
qed

lemma missing_named:
  "(falsy (inputTokenAddress r) \<longrightarrow> ''inputToken'' \<in> set (missingFields r)) \<and>
   (falsy (outputTokenAddress r) \<longrightarrow> ''outputToken'' \<in> set (missingFields r)) \<and>
   (falsy (fromAmount r) \<longrightarrow> ''inputAmount'' \<in> set (missingFields r)) \<and>
   (falsy (toAmount r) \<longrightarrow> ''outputAmount'' \<in> set (missingFields r)) \<and>
   (falsy (outputTokenChainId r) \<longrightarrow> ''destinationChainId'' \<in> set (missingFields r)) \<and>
   (falsy (exclusiveRelayer r) \<longrightarrow> ''exclusiveRelayer'' \<in> set (missingFields r)) \<and>
   (falsy (quoteTimestamp r) \<longrightarrow> ''quoteTimestamp'' \<in> set (missingFields r)) \<and>
   (falsy (fillDeadline r) \<longrightarrow> ''fillDeadline'' \<in> set (missingFields r)) \<and>
   (exclusivityDeadline r = JUndefined \<longrightarrow> ''exclusivityDeadline'' \<in> set (missingFields r))"
  by (simp add: missingFields_def)

lemma missing_empty_iff:
  "missingFields r = [] \<longleftrightarrow>
     \<not> falsy (inputTokenAddress r) \<and> \<not> falsy (outputTokenAddress r) \<and>
     \<not> falsy (fromAmount r) \<and> \<not> falsy (toAmount r) \<and> \<not> falsy (outputTokenChainId r) \<and>
     \<not> falsy (exclusiveRelayer r) \<and> \<not> falsy (quoteTimestamp r) \<and>
     \<not> falsy (fillDeadline r) \<and> exclusivityDeadline r \<noteq> JUndefined"
  by (simp add: missingFields_def)

text \<open>
  C9.  For an Across route whose quote has no usable \<open>exclusiveRelayer\<close> (the field is
  absent, or holds a falsy value), \<open>generateAcrossCallData\<close> throws the incomplete-route
  error, and the list of names in its message contains \<open>exclusiveRelayer\<close>.  The same
  holds for every name in \<open>missingFields\<close>, and each of the nine values read from the route
  puts its name there when it is missing: \<open>inputToken\<close>, \<open>outputToken\<close>, \<open>inputAmount\<close>,
  \<open>outputAmount\<close>, \<open>destinationChainId\<close>, \<open>exclusiveRelayer\<close>, \<open>quoteTimestamp\<close>, \<open>fillDeadline\<close>
  when falsy, \<open>exclusivityDeadline\<close> when undefined.  When calldata is returned, nothing
  was missing and the arguments encoded are the route's own values, none replaced by a
  default.  (The depositor argument is the zero address for every route; it is not read
  from the quote.)
\<close>

theorem missing_across_field_is_named_not_defaulted:
  "(falsy (exclusiveRelayer r) \<longrightarrow>
      generateAcrossCallData bigIntAccepts encodeFunctionData r userAddress
        = Inl (AcrossRouteIncomplete (joinWith '', '' (missingFields r))
                 (if falsy (idValue r) then JString ''unknown'' else idValue r)) \<and>
      sublist ''exclusiveRelayer'' (joinWith '', '' (missingFields r))) \<and>
   (\<forall>n\<in>set (missingFields r).
      generateAcrossCallData bigIntAccepts encodeFunctionData r userAddress
        = Inl (AcrossRouteIncomplete (joinWith '', '' (missingFields r))
                 (if falsy (idValue r) then JString ''unknown'' else idValue r)) \<and>
      sublist n (joinWith '', '' (missingFields r))) \<and>
   (falsy (inputTokenAddress r) \<longrightarrow> ''inputToken'' \<in> set (missingFields r)) \<and>
   (falsy (outputTokenAddress r) \<longrightarrow> ''outputToken'' \<in> set (missingFields r)) \<and>
   (falsy (fromAmount r) \<longrightarrow> ''inputAmount'' \<in> set (missingFields r)) \<and>
   (falsy (toAmount r) \<longrightarrow> ''outputAmount'' \<in> set (missingFields r)) \<and>
   (falsy (outputTokenChainId r) \<longrightarrow> ''destinationChainId'' \<in> set (missingFields r)) \<and>
   (falsy (exclusiveRelayer r) \<longrightarrow> ''exclusiveRelayer'' \<in> set (missingFields r)) \<and>
   (falsy (quoteTimestamp r) \<longrightarrow> ''quoteTimestamp'' \<in> set (missingFields r)) \<and>
   (falsy (fillDeadline r) \<longrightarrow> ''fillDeadline'' \<in> set (missingFields r)) \<and>
   (exclusivityDeadline r = JUndefined \<longrightarrow> ''exclusivityDeadline'' \<in> set (missingFields r)) \<and>
   (\<forall>callDataHex.
      generateAcrossCallData bigIntAccepts encodeFunctionData r userAddress = Inr callDataHex \<longrightarrow>
        missingFields r = [] \<and> \<not> falsy (exclusiveRelayer r) \<and>
        encodeFunctionData ''depositV3''
          [ZeroAddress, userAddress, inputTokenAddress r, outputTokenAddress r, fromAmount r,
           toAmount r, outputTokenChainId r, exclusiveRelayer r, quoteTimestamp r,
           fillDeadline r, exclusivityDeadline r, JString ''0x''] = Some callDataHex)"
proof -
  have err: "generateAcrossCallData bigIntAccepts encodeFunctionData r userAddress
        = Inl (AcrossRouteIncomplete (joinWith '', '' (missingFields r))
                 (if falsy (idValue r) then JString ''unknown'' else idValue r)) \<and>
      sublist n (joinWith '', '' (missingFields r))"
    if "n \<in> set (missingFields r)" for n
  proof -
    from that have "length (missingFields r) > 0" by (cases "missingFields r") auto
    with joinWith_mentions [OF that] show ?thesis
      by (simp add: generateAcrossCallData_def)
  qed
  have ok: "missingFields r = [] \<and> \<not> falsy (exclusiveRelayer r) \<and>
        encodeFunctionData ''depositV3''
          [ZeroAddress, userAddress, inputTokenAddress r, outputTokenAddress r, fromAmount r,
           toAmount r, outputTokenChainId r, exclusiveRelayer r, quoteTimestamp r,
           fillDeadline r, exclusivityDeadline r, JString ''0x''] = Some callDataHex"
    if res: "generateAcrossCallData bigIntAccepts encodeFunctionData r userAddress = Inr callDataHex"
    for callDataHex
  proof -
    from res have m: "missingFields r = []"
      by (cases "missingFields r") (simp_all add: generateAcrossCallData_def)
    with res have "encodeFunctionData ''depositV3'' (depositV3Arguments r userAddress) = Some callDataHex"
      by (auto simp: generateAcrossCallData_def split: if_splits option.splits)
    with m missing_empty_iff [of r] show ?thesis
      by (simp add: depositV3Arguments_def)
  qed
  from missing_named [of r] have rel: "falsy (exclusiveRelayer r) \<longrightarrow> ''exclusiveRelayer'' \<in> set (missingFields r)"
    by simp
  from rel err have first: "falsy (exclusiveRelayer r) \<longrightarrow>
      generateAcrossCallData bigIntAccepts encodeFunctionData r userAddress
        = Inl (AcrossRouteIncomplete (joinWith '', '' (missingFields r))
                 (if falsy (idValue r) then JString ''unknown'' else idValue r)) \<and>
      sublist ''exclusiveRelayer'' (joinWith '', '' (missingFields r))"
    by blast
  from err have every: "\<forall>n\<in>set (missingFields r).
      generateAcrossCallData bigIntAccepts encodeFunctionData r userAddress
        = Inl (AcrossRouteIncomplete (joinWith '', '' (missingFields r))
                 (if falsy (idValue r) then JString ''unknown'' else idValue r)) \<and>
      sublist n (joinWith '', '' (missingFields r))"
    by blast
  from ok have good: "\<forall>callDataHex.
      generateAcrossCallData bigIntAccepts encodeFunctionData r userAddress = Inr callDataHex \<longrightarrow>
        missingFields r = [] \<and> \<not> falsy (exclusiveRelayer r) \<and>
        encodeFunctionData ''depositV3''
          [ZeroAddress, userAddress, inputTokenAddress r, outputTokenAddress r, fromAmount r,
           toAmount r, outputTokenChainId r, exclusiveRelayer r, quoteTimestamp r,
           fillDeadline r, exclusivityDeadline r, JString ''0x''] = Some callDataHex"
    by blast
  from first every missing_named [of r] good show ?thesis
    by (intro conjI) (assumption | (elim conjE, assumption))+
qed

theorem missing_across_field_is_named_not_defaulted_witness:
  "falsy (exclusiveRelayer quoteWithoutRelayer) \<and>
   generateAcrossCallData (\<lambda>v. True) (\<lambda>f args. Some ''0x'') quoteWithoutRelayer (JString ''0xabc'')
     = Inl (AcrossRouteIncomplete ''exclusiveRelayer, fillDeadline'' (JString ''across_1'')) \<and>
   sublist ''exclusiveRelayer'' ''exclusiveRelayer, fillDeadline''"
proof -
  have f: "falsy (exclusiveRelayer quoteWithoutRelayer)"
    by (simp add: quoteWithoutRelayer_def)
  have m: "missingFields quoteWithoutRelayer = [''exclusiveRelayer'', ''fillDeadline'']"
    "idValue quoteWithoutRelayer = JString ''across_1''"
    by (simp_all add: missingFields_def quoteWithoutRelayer_def)
  from missing_across_field_is_named_not_defaulted
         [of quoteWithoutRelayer "\<lambda>v. True" "\<lambda>f args. Some ''0x''" "JString ''0xabc''"] f
  have "generateAcrossCallData (\<lambda>v. True) (\<lambda>f args. Some ''0x'') quoteWithoutRelayer (JString ''0xabc'')
        = Inl (AcrossRouteIncomplete (joinWith '', '' (missingFields quoteWithoutRelayer))
                 (if falsy (idValue quoteWithoutRelayer) then JString ''unknown''
                  else idValue quoteWithoutRelayer)) \<and>
      sublist ''exclusiveRelayer'' (joinWith '', '' (missingFields quoteWithoutRelayer))"
    by blast
  with f m show ?thesis by simp
qed

end
